theory Spec2Isabelle
  imports Main
begin

section \<open>The field operator AST (input of the lowering)\<close>

text \<open>
  The pass \<^verbatim>\<open>functional/ffront/foast_to_itir.py\<close> reads the node classes of
  \<^verbatim>\<open>functional.ffront.field_operator_ast\<close> (imported as \<^verbatim>\<open>foast\<close>) and builds nodes of
  \<^verbatim>\<open>functional.iterator.ir\<close> (imported as \<^verbatim>\<open>itir\<close>). Neither module is among the
  sources, so the node types below follow the data model of the specification; the
  functions over them follow the code of the pass, method by method.
\<close>

text \<open>
  Modelled from the spec: the enumeration \<^verbatim>\<open>foast.UnaryOperator\<close>. The pass names one
  member, \<^verbatim>\<open>NOT\<close>, and reads the \<^verbatim>\<open>value\<close> of every member. The specification lists
  negation (whose call name is \<^verbatim>\<open>minus\<close>) and logical-not and leaves the enumeration open;
  \<open>UADD\<close> stands for a further member. No theorem depends on the strings chosen for
  \<open>UADD\<close> and \<open>NOT\<close>.
\<close>

datatype UnaryOperator = UADD | USUB | NOT

fun unary_value :: "UnaryOperator \<Rightarrow> string" where
  "unary_value UADD = ''plus''"
| "unary_value USUB = ''minus''"
| "unary_value NOT = ''not_''"

text \<open>
  Modelled from the spec: the enumerations \<^verbatim>\<open>foast.BinaryOperator\<close> and
  \<^verbatim>\<open>foast.CompareOperator\<close>. The pass reads nothing of a member but its \<^verbatim>\<open>value\<close>, the
  textual name that becomes the call name, so a member is represented by that value.
\<close>

datatype BinaryOperator = BinaryOperator (binary_value: string)

datatype CompareOperator = CompareOperator (compare_value: string)

text \<open>
  Modelled from the spec: the expression nodes. Every node carries an opaque source
  location of type \<open>'l\<close>. \<open>Assign\<close> and \<open>Return\<close> are statements of a body and never occur
  inside an expression.
\<close>

datatype 'l Expr =
    Name 'l string
  | Subscript 'l "'l Expr" int
  | TupleExpr 'l "'l Expr list"
  | UnaryOp 'l UnaryOperator "'l Expr"
  | BinOp 'l BinaryOperator "'l Expr" "'l Expr"
  | Compare 'l CompareOperator "'l Expr" "'l Expr"
  | Call 'l "'l Expr" "'l Expr list"

datatype 'l Stmt =
    Assign (stmt_location: 'l) (target: "'l Expr") (stmt_value: "'l Expr")
  | Return (stmt_location: 'l) (stmt_value: "'l Expr")

text \<open>
  Modelled from the spec: a declared symbol is a \<open>FieldSymbol\<close> or a symbol of another
  kind (scalar, function, ...); \<^verbatim>\<open>isinstance(s, foast.FieldSymbol)\<close> tells them apart.
\<close>

datatype 'l Symbol =
    FieldSymbol (symbol_location: 'l) (symbol_id: string)
  | Symbol (symbol_location: 'l) (symbol_id: string)

fun isinstance_FieldSymbol :: "'l Symbol \<Rightarrow> bool" where
  "isinstance_FieldSymbol (FieldSymbol l i) = True"
| "isinstance_FieldSymbol (Symbol l i) = False"


section \<open>Iterator IR (output of the lowering)\<close>

text \<open>
  Modelled from the spec: the target nodes the pass constructs. There is no statement
  node among them.
\<close>

datatype itir_Expr =
    SymRef string
  | FunCall itir_Expr "itir_Expr list"
  | IntLiteral int



section \<open>Errors\<close>

text \<open>
  \<open>IndexError\<close>: \<^verbatim>\<open>nodes[-1]\<close> on an empty body. \<open>AttributeError\<close>: \<^verbatim>\<open>node.target.id\<close> on a
  target without identifier. \<open>TypeError\<close>: a statement before the last that is not an
  assignment, see \<open>AssignResolver_visit_stmt\<close>. \<open>ValidationError\<close>: a
  \<open>FunctionDefinition\<close> constructed with a parameter that is not a \<open>Sym\<close>, see
  \<open>itir_FunctionDefinition\<close>.
\<close>

datatype error = IndexError | AttributeError | TypeError | ValidationError

section \<open>AssignResolver\<close>

text \<open>
  \<^verbatim>\<open>AssignResolver.visit_Name\<close>: a name bound in \<^verbatim>\<open>names\<close> is replaced by the expression
  bound to it, any other name is returned as it is.
\<close>

definition AssignResolver_visit_Name ::
  "(string \<rightharpoonup> 'l Expr) \<Rightarrow> 'l \<Rightarrow> string \<Rightarrow> 'l Expr" where
  "AssignResolver_visit_Name names l i =
     (if i \<in> dom names then the (names i) else Name l i)"

text \<open>
  Modelled from the spec: the visit of an expression by the resolver. \<open>Name\<close> nodes go to
  \<^verbatim>\<open>visit_Name\<close>. The resolver has no method for any other expression node, so these go
  to the generic visit inherited from \<^verbatim>\<open>eve.NodeTranslator\<close>, which is not among the
  sources: following the specification it rebuilds the node from its visited children
  (every \<open>Name\<close> below it is replaced, also in the function position of a call) and
  keeps location, operator and index.
\<close>

fun AssignResolver_visit :: "(string \<rightharpoonup> 'l Expr) \<Rightarrow> 'l Expr \<Rightarrow> 'l Expr" where
  "AssignResolver_visit names (Name l i) = AssignResolver_visit_Name names l i"
| "AssignResolver_visit names (Subscript l v k) =
     Subscript l (AssignResolver_visit names v) k"
| "AssignResolver_visit names (TupleExpr l elts) =
     TupleExpr l (map (AssignResolver_visit names) elts)"
| "AssignResolver_visit names (UnaryOp l op operand) =
     UnaryOp l op (AssignResolver_visit names operand)"
| "AssignResolver_visit names (BinOp l op left right) =
     BinOp l op (AssignResolver_visit names left) (AssignResolver_visit names right)"
| "AssignResolver_visit names (Compare l op left right) =
     Compare l op (AssignResolver_visit names left) (AssignResolver_visit names right)"
| "AssignResolver_visit names (Call l func args) =
     Call l (AssignResolver_visit names func) (map (AssignResolver_visit names) args)"

text \<open>
  \<^verbatim>\<open>AssignResolver.visit_Assign\<close>: the one-entry dictionary
  \<^verbatim>\<open>{node.target.id: self.visit(node.value, names=names)}\<close>. Only a \<open>Name\<close> has an
  \<^verbatim>\<open>id\<close>.
\<close>

fun visit_Assign ::
  "(string \<rightharpoonup> 'l Expr) \<Rightarrow> 'l \<Rightarrow> 'l Expr \<Rightarrow> 'l Expr \<Rightarrow> error + (string \<rightharpoonup> 'l Expr)" where
  "visit_Assign names l (Name tloc i) v = Inr [i \<mapsto> AssignResolver_visit names v]"
| "visit_Assign names l t v = Inl AttributeError"

text \<open>
  The visit of a statement before the last one, whose result \<^verbatim>\<open>apply\<close> hands to
  \<^verbatim>\<open>names.update\<close>. An \<open>Assign\<close> goes to \<^verbatim>\<open>visit_Assign\<close>. A \<open>Return\<close> in this position
  has no method in the resolver; its visit yields a node and not a dictionary, and what
  \<^verbatim>\<open>dict.update\<close> does with a node is decided by the node base class outside the sources.
  The model stops there with \<open>TypeError\<close>.
\<close>

fun AssignResolver_visit_stmt ::
  "(string \<rightharpoonup> 'l Expr) \<Rightarrow> 'l Stmt \<Rightarrow> error + (string \<rightharpoonup> 'l Expr)" where
  "AssignResolver_visit_stmt names (Assign l t v) = visit_Assign names l t v"
| "AssignResolver_visit_stmt names (Return l v) = Inl TypeError"

text \<open>
  The loop of \<^verbatim>\<open>AssignResolver.apply\<close>:
  \<^verbatim>\<open>for node in nodes[:-1]: names.update(parser.visit(node, names=names))\<close>.
\<close>

fun update_names ::
  "(string \<rightharpoonup> 'l Expr) \<Rightarrow> 'l Stmt list \<Rightarrow> error + (string \<rightharpoonup> 'l Expr)" where
  "update_names names [] = Inr names"
| "update_names names (node # nodes) =
     (case AssignResolver_visit_stmt names node of
        Inl e \<Rightarrow> Inl e
      | Inr d \<Rightarrow> update_names (names ++ d) nodes)"

text \<open>
  \<^verbatim>\<open>AssignResolver.apply\<close>: starting from the empty dictionary, run the loop over all
  statements but the last, then wrap the substituted value of the last statement in a
  \<open>Return\<close> at the last statement's location. \<^verbatim>\<open>nodes[:-1]\<close> of an empty list is empty,
  \<^verbatim>\<open>nodes[-1]\<close> raises.
\<close>

definition AssignResolver_apply :: "'l Stmt list \<Rightarrow> error + 'l Stmt" where
  "AssignResolver_apply nodes =
     (case update_names Map.empty (butlast nodes) of
        Inl e \<Rightarrow> Inl e
      | Inr names \<Rightarrow>
          if nodes = [] then Inl IndexError
          else Inr (Return (stmt_location (last nodes))
                      (AssignResolver_visit names (stmt_value (last nodes)))))"

section \<open>FieldOperatorLowering\<close>

text \<open>
  The visit of an expression, one equation per method: \<^verbatim>\<open>visit_Name\<close>,
  \<^verbatim>\<open>visit_Subscript\<close>, \<^verbatim>\<open>visit_TupleExpr\<close>, \<^verbatim>\<open>visit_UnaryOp\<close>, \<^verbatim>\<open>visit_BinOp\<close>,
  \<^verbatim>\<open>visit_Compare\<close>, \<^verbatim>\<open>visit_Call\<close>.
\<close>

fun FieldOperatorLowering_visit :: "(string \<rightharpoonup> 'l Symbol) \<Rightarrow> 'l Expr \<Rightarrow> itir_Expr" where
  "FieldOperatorLowering_visit st (Name l i) =
     (case st i of
        Some s \<Rightarrow>
          if isinstance_FieldSymbol s then FunCall (SymRef ''deref'') [SymRef i]
          else SymRef i
      | None \<Rightarrow> SymRef i)"
| "FieldOperatorLowering_visit st (Subscript l v k) =
     FunCall (SymRef ''tuple_get'') [FieldOperatorLowering_visit st v, IntLiteral k]"
| "FieldOperatorLowering_visit st (TupleExpr l elts) =
     FunCall (SymRef ''make_tuple'') (map (FieldOperatorLowering_visit st) elts)"
| "FieldOperatorLowering_visit st (UnaryOp l op operand) =
     FunCall (SymRef (unary_value op))
       ((if op \<noteq> NOT then [IntLiteral 0] else []) @ [FieldOperatorLowering_visit st operand])"
| "FieldOperatorLowering_visit st (BinOp l op left right) =
     FunCall (SymRef (binary_value op))
       [FieldOperatorLowering_visit st left, FieldOperatorLowering_visit st right]"
| "FieldOperatorLowering_visit st (Compare l op left right) =
     FunCall (SymRef (compare_value op))
       [FieldOperatorLowering_visit st left, FieldOperatorLowering_visit st right]"
| "FieldOperatorLowering_visit st (Call l func args) =
     FunCall
       (case func of
          Name fl i \<Rightarrow> SymRef i
        | _ \<Rightarrow> FieldOperatorLowering_visit st func)
       (map (FieldOperatorLowering_visit st) args)"









section \<open>Notions used to state the properties\<close>

text \<open>Whether the symbol table classifies an identifier as a field.\<close>

definition is_field :: "(string \<rightharpoonup> 'l Symbol) \<Rightarrow> string \<Rightarrow> bool" where
  "is_field st i = (case st i of Some s \<Rightarrow> isinstance_FieldSymbol s | None \<Rightarrow> False)"

text \<open>The number of calls of \<^verbatim>\<open>deref\<close> in a target expression.\<close>

fun deref_calls :: "itir_Expr \<Rightarrow> nat" where
  "deref_calls (SymRef i) = 0"
| "deref_calls (FunCall f args) =
     (if f = SymRef ''deref'' then 1 else 0) + deref_calls f + sum_list (map deref_calls args)"
| "deref_calls (IntLiteral k) = 0"

text \<open>
  The number of use sites of field names in a surface expression: \<open>Name\<close> nodes in value
  position (anywhere but the function position of a call) that the symbol table
  classifies as fields.
\<close>

fun field_uses :: "(string \<rightharpoonup> 'l Symbol) \<Rightarrow> 'l Expr \<Rightarrow> nat" where
  "field_uses st (Name l i) = (if is_field st i then 1 else 0)"
| "field_uses st (Subscript l v k) = field_uses st v"
| "field_uses st (TupleExpr l elts) = sum_list (map (field_uses st) elts)"
| "field_uses st (UnaryOp l op operand) = field_uses st operand"
| "field_uses st (BinOp l op left right) = field_uses st left + field_uses st right"
| "field_uses st (Compare l op left right) = field_uses st left + field_uses st right"
| "field_uses st (Call l func args) =
     (case func of Name fl i \<Rightarrow> 0 | _ \<Rightarrow> field_uses st func)
     + sum_list (map (field_uses st) args)"

text \<open>
  The number of nodes of a surface expression that themselves name \<^verbatim>\<open>deref\<close> as the
  function to call: calls whose target is the bare name \<^verbatim>\<open>deref\<close>, and binary or
  comparison operators whose value is \<^verbatim>\<open>deref\<close>.
\<close>

fun deref_targets :: "'l Expr \<Rightarrow> nat" where
  "deref_targets (Name l i) = 0"
| "deref_targets (Subscript l v k) = deref_targets v"
| "deref_targets (TupleExpr l elts) = sum_list (map deref_targets elts)"
| "deref_targets (UnaryOp l op operand) = deref_targets operand"
| "deref_targets (BinOp l op left right) =
     (if binary_value op = ''deref'' then 1 else 0) + deref_targets left + deref_targets right"
| "deref_targets (Compare l op left right) =
     (if compare_value op = ''deref'' then 1 else 0) + deref_targets left + deref_targets right"
| "deref_targets (Call l func args) =
     (case func of Name fl i \<Rightarrow> (if i = ''deref'' then 1 else 0) | _ \<Rightarrow> deref_targets func)
     + sum_list (map deref_targets args)"

text \<open>
  A chain of renames from the name \<open>x\<close>: each link \<open>(l, tloc, t, vloc)\<close> is the
  assignment \<^verbatim>\<open>t = p\<close> at location \<open>l\<close>, where \<open>p\<close> is the target of the link before it
  (\<open>x\<close> for the first link), \<open>tloc\<close> the location of the target and \<open>vloc\<close> that of the
  reference to \<open>p\<close>. \<open>chain_end\<close> is the last name bound, \<open>chain_source\<close> the location
  of the one reference to \<open>x\<close> (in the first link, or in the return when there is no link).
\<close>

fun rename_chain :: "string \<Rightarrow> ('l \<times> 'l \<times> string \<times> 'l) list \<Rightarrow> 'l Stmt list" where
  "rename_chain p [] = []"
| "rename_chain p ((l, tloc, t, vloc) # links) =
     Assign l (Name tloc t) (Name vloc p) # rename_chain t links"

fun chain_end :: "string \<Rightarrow> ('l \<times> 'l \<times> string \<times> 'l) list \<Rightarrow> string" where
  "chain_end p [] = p"
| "chain_end p ((l, tloc, t, vloc) # links) = chain_end t links"

fun chain_source :: "'l \<Rightarrow> ('l \<times> 'l \<times> string \<times> 'l) list \<Rightarrow> 'l" where
  "chain_source rvloc [] = rvloc"
| "chain_source rvloc ((l, tloc, t, vloc) # links) = vloc"

text \<open>
  The shape of a well-formed body: not empty, every statement but the last an
  assignment to a name, the last statement a \<open>Return\<close>.
\<close>

fun is_binding :: "'l Stmt \<Rightarrow> bool" where
  "is_binding (Assign l (Name tloc i) v) = True"
| "is_binding node = False"




fun bound_names :: "'l Stmt list \<Rightarrow> string set" where
  "bound_names [] = {}"
| "bound_names (Assign l (Name tloc i) v # nodes) = insert i (bound_names nodes)"
| "bound_names (node # nodes) = bound_names nodes"



text \<open>
  The child expressions of a node, in the order of its fields, and the subexpression
  found by following a path of child indices from the root. A reference site of a name
  \<open>a\<close> in \<open>v\<close> is a path \<open>p\<close> with \<open>subterm_at v p = Some (Name loc a)\<close>.
\<close>

fun children :: "'l Expr \<Rightarrow> 'l Expr list" where
  "children (Name l i) = []"
| "children (Subscript l v k) = [v]"
| "children (TupleExpr l elts) = elts"
| "children (UnaryOp l op operand) = [operand]"
| "children (BinOp l op left right) = [left, right]"
| "children (Compare l op left right) = [left, right]"
| "children (Call l func args) = func # args"

fun subterm_at :: "'l Expr \<Rightarrow> nat list \<Rightarrow> 'l Expr option" where
  "subterm_at e [] = Some e"
| "subterm_at e (n # p) =
     (if n < length (children e) then subterm_at (children e ! n) p else None)"

section \<open>Properties of the structural lowering of expressions\<close>

lemma sum_list_map_add:
  "(\<And>x. x \<in> set xs \<Longrightarrow> f x = g x + (h x :: nat)) \<Longrightarrow>
   sum_list (map f xs) = sum_list (map g xs) + sum_list (map h xs)"
  by (induction xs) auto

lemma unary_value_not_deref: "unary_value op \<noteq> ''deref''"
  by (cases op) simp_all

lemma deref_calls_visit:
  "deref_calls (FieldOperatorLowering_visit st e) = field_uses st e + deref_targets e"
proof (induction e)
  case (Name l i)
  then show ?case by (simp add: is_field_def split: option.splits)
next
  case (TupleExpr l elts)
  have "sum_list (map (\<lambda>e. deref_calls (FieldOperatorLowering_visit st e)) elts)
        = sum_list (map (field_uses st) elts) + sum_list (map deref_targets elts)"
    by (rule sum_list_map_add) (rule TupleExpr)
  then show ?case by (simp add: comp_def)
next
  case (UnaryOp l op operand)
  then show ?case by (simp add: unary_value_not_deref)
next
  case (Call l func args)
  have args: "sum_list (map (\<lambda>e. deref_calls (FieldOperatorLowering_visit st e)) args)
        = sum_list (map (field_uses st) args) + sum_list (map deref_targets args)"
    by (rule sum_list_map_add) (rule Call(2))
  show ?case
    using args Call(1) by (cases func) (simp_all add: comp_def)
qed simp_all

text \<open>
  C1. A \<open>Name\<close> in value position whose identifier the symbol table classifies as a field
  is lowered to the call of \<^verbatim>\<open>deref\<close> on the reference to it; a \<open>Name\<close> that the symbol
  table classifies as a symbol of another kind is lowered to the bare reference. One
  \<^verbatim>\<open>deref\<close> is inserted per use site of a field name: the calls of \<^verbatim>\<open>deref\<close> in the
  lowering of any expression are as many as its use sites of field names, next to the
  calls and operators that already name \<^verbatim>\<open>deref\<close> in the surface expression.
\<close>

theorem visit_Name_inserts_deref:
  "(st i = Some s \<and> isinstance_FieldSymbol s \<longrightarrow>
      FieldOperatorLowering_visit st (Name l i) = FunCall (SymRef ''deref'') [SymRef i])
   \<and> (st i = Some s \<and> \<not> isinstance_FieldSymbol s \<longrightarrow>
      FieldOperatorLowering_visit st (Name l i) = SymRef i)
   \<and> deref_calls (FieldOperatorLowering_visit st e) = field_uses st e + deref_targets e"
  by (simp add: deref_calls_visit)

theorem visit_Name_inserts_deref_witness:
  "FieldOperatorLowering_visit
      [''inp'' \<mapsto> FieldSymbol (0::nat) ''inp'', ''s'' \<mapsto> Symbol 0 ''s''] (Name 1 ''inp'')
     = FunCall (SymRef ''deref'') [SymRef ''inp'']
   \<and> FieldOperatorLowering_visit
      [''inp'' \<mapsto> FieldSymbol (0::nat) ''inp'', ''s'' \<mapsto> Symbol 0 ''s''] (Name 1 ''s'')
     = SymRef ''s''
   \<and> deref_calls (FieldOperatorLowering_visit
      [''inp'' \<mapsto> FieldSymbol (0::nat) ''inp'', ''s'' \<mapsto> Symbol 0 ''s'']
      (TupleExpr 1 [Name 2 ''inp'', Name 3 ''s'', Name 4 ''inp''])) = 2"
  using visit_Name_inserts_deref
      [of "[''inp'' \<mapsto> FieldSymbol (0::nat) ''inp'', ''s'' \<mapsto> Symbol 0 ''s'']"
          "''inp''" "FieldSymbol 0 ''inp''" 1
          "TupleExpr 1 [Name 2 ''inp'', Name 3 ''s'', Name 4 ''inp'']"]
    visit_Name_inserts_deref
      [of "[''inp'' \<mapsto> FieldSymbol (0::nat) ''inp'', ''s'' \<mapsto> Symbol 0 ''s'']"
          "''s''" "Symbol 0 ''s''" 1 "Name 1 ''s''"]
  by (simp add: is_field_def)

text \<open>
  C2. A call whose target is a bare \<open>Name\<close> is lowered to a call of the reference to that
  name, also when the symbol table classifies the name as a field (where the same name in
  value position gets a \<^verbatim>\<open>deref\<close>); a call with any other target is lowered to a call of
  the lowered target. In both cases the arguments are the lowered arguments, in order.
\<close>

theorem visit_Call_target_not_dereferenced:
  "FieldOperatorLowering_visit st (Call l (Name fl i) args)
     = FunCall (SymRef i) (map (FieldOperatorLowering_visit st) args)
   \<and> (is_field st i \<longrightarrow>
        FieldOperatorLowering_visit st (Name fl i) = FunCall (SymRef ''deref'') [SymRef i])
   \<and> ((\<forall>nl n. func \<noteq> Name nl n) \<longrightarrow>
        FieldOperatorLowering_visit st (Call l func args)
          = FunCall (FieldOperatorLowering_visit st func)
              (map (FieldOperatorLowering_visit st) args))"
  by (cases func) (auto simp: is_field_def split: option.splits)

theorem visit_Call_target_not_dereferenced_witness:
  "FieldOperatorLowering_visit [''inp'' \<mapsto> FieldSymbol (0::nat) ''inp'']
      (Call 1 (Name 2 ''inp'') [Name 3 ''x'', Name 4 ''inp''])
     = FunCall (SymRef ''inp'') [SymRef ''x'', FunCall (SymRef ''deref'') [SymRef ''inp'']]
   \<and> FieldOperatorLowering_visit [''inp'' \<mapsto> FieldSymbol (0::nat) ''inp'']
      (Call 1 (Subscript 2 (Name 3 ''fs'') 0) [Name 4 ''x''])
     = FunCall (FunCall (SymRef ''tuple_get'') [SymRef ''fs'', IntLiteral 0]) [SymRef ''x'']"
  using visit_Call_target_not_dereferenced
      [of "[''inp'' \<mapsto> FieldSymbol (0::nat) ''inp'']" 1 2 "''inp''"
          "[Name 3 ''x'', Name 4 ''inp'']" "Subscript 2 (Name 3 ''fs'') 0"]
    visit_Call_target_not_dereferenced
      [of "[''inp'' \<mapsto> FieldSymbol (0::nat) ''inp'']" 1 2 "''inp''"
          "[Name 4 ''x'']" "Subscript 2 (Name 3 ''fs'') 0"]
  by (simp add: is_field_def)

text \<open>
  C5. Negation is lowered to the call of the operator's value (\<^verbatim>\<open>minus\<close>) on two
  arguments, the literal 0 and the lowered operand; logical-not is lowered to the call of
  its value on the lowered operand alone.
\<close>

theorem visit_UnaryOp_negation_from_zero:
  "FieldOperatorLowering_visit st (UnaryOp l USUB x)
     = FunCall (SymRef (unary_value USUB)) [IntLiteral 0, FieldOperatorLowering_visit st x]
   \<and> unary_value USUB = ''minus''
   \<and> FieldOperatorLowering_visit st (UnaryOp l NOT x)
     = FunCall (SymRef (unary_value NOT)) [FieldOperatorLowering_visit st x]"
  by simp

theorem visit_UnaryOp_negation_from_zero_witness:
  "FieldOperatorLowering_visit Map.empty (UnaryOp (0::nat) USUB (Name 1 ''x''))
     = FunCall (SymRef ''minus'') [IntLiteral 0, SymRef ''x'']
   \<and> FieldOperatorLowering_visit Map.empty (UnaryOp (0::nat) NOT (Name 1 ''x''))
     = FunCall (SymRef (unary_value NOT)) [SymRef ''x'']"
  using visit_UnaryOp_negation_from_zero [of Map.empty "0::nat" "Name 1 ''x''"]
  by simp

lemma FunCall_nested_neq: "FunCall f [FunCall g [x, y], z] \<noteq> y"
proof
  assume "FunCall f [FunCall g [x, y], z] = y"
  then have "size (FunCall f [FunCall g [x, y], z]) = size y"
    by (rule arg_cong)
  then show False by simp
qed

text \<open>
  C6. A 2-tuple subscripted at index 1 is lowered to \<^verbatim>\<open>tuple_get\<close> applied to the
  \<^verbatim>\<open>make_tuple\<close> of the two lowered elements and the literal 1. The access is not folded:
  the result is never the lowered second element.
\<close>

theorem visit_Subscript_of_TupleExpr_not_folded:
  "FieldOperatorLowering_visit st (Subscript l (TupleExpr tloc [a, b]) 1)
     = FunCall (SymRef ''tuple_get'')
         [FunCall (SymRef ''make_tuple'')
            [FieldOperatorLowering_visit st a, FieldOperatorLowering_visit st b],
          IntLiteral 1]
   \<and> FieldOperatorLowering_visit st (Subscript l (TupleExpr tloc [a, b]) 1)
       \<noteq> FieldOperatorLowering_visit st b"
  by (simp add: FunCall_nested_neq)

theorem visit_Subscript_of_TupleExpr_not_folded_witness:
  "FieldOperatorLowering_visit Map.empty
      (Subscript (0::nat) (TupleExpr 1 [Name 2 ''a'', Name 3 ''b'']) 1)
     = FunCall (SymRef ''tuple_get'')
         [FunCall (SymRef ''make_tuple'') [SymRef ''a'', SymRef ''b''], IntLiteral 1]"
  using visit_Subscript_of_TupleExpr_not_folded
      [of Map.empty "0::nat" 1 "Name 2 ''a''" "Name 3 ''b''"]
  by simp

text \<open>
  C9. A \<open>Name\<close> whose identifier is not in the symbol table is lowered to the bare
  reference, without \<^verbatim>\<open>deref\<close>; the visit of an expression has no error result.
\<close>

theorem visit_Name_absent_from_symtable:
  "st i = None \<Longrightarrow> FieldOperatorLowering_visit st (Name l i) = SymRef i"
  by simp

theorem visit_Name_absent_from_symtable_witness:
  "[''inp'' \<mapsto> FieldSymbol (0::nat) ''inp''] ''y'' = None
   \<and> FieldOperatorLowering_visit [''inp'' \<mapsto> FieldSymbol (0::nat) ''inp''] (Name 1 ''y'')
       = SymRef ''y''"
  using visit_Name_absent_from_symtable
      [of "[''inp'' \<mapsto> FieldSymbol (0::nat) ''inp'']" "''y''" 1]
  by simp

text \<open>
  C10. For every unary operator other than logical-not the literal 0 is put before the
  lowered operand, so the call has two arguments; for logical-not the call has the
  lowered operand as its one argument.
\<close>

theorem visit_UnaryOp_zero_unless_NOT:
  "(op \<noteq> NOT \<longrightarrow>
      FieldOperatorLowering_visit st (UnaryOp l op x)
        = FunCall (SymRef (unary_value op)) [IntLiteral 0, FieldOperatorLowering_visit st x])
   \<and> (\<exists>a. FieldOperatorLowering_visit st (UnaryOp l NOT x) = FunCall (SymRef (unary_value NOT)) [a])"
  by simp

theorem visit_UnaryOp_zero_unless_NOT_witness:
  "UADD \<noteq> NOT
   \<and> FieldOperatorLowering_visit Map.empty (UnaryOp (0::nat) UADD (Name 1 ''x''))
       = FunCall (SymRef (unary_value UADD)) [IntLiteral 0, SymRef ''x'']"
  using visit_UnaryOp_zero_unless_NOT [of UADD Map.empty "0::nat" "Name 1 ''x''"]
  by simp

section \<open>Properties of the assignment resolver\<close>

lemma update_names_append:
  "update_names names (xs @ ys) =
     (case update_names names xs of Inl e \<Rightarrow> Inl e | Inr names' \<Rightarrow> update_names names' ys)"
  by (induction xs arbitrary: names) (auto split: sum.splits)

lemma update_names_rename_chain:
  "names p = Some e \<Longrightarrow>
   \<exists>names'. update_names names (rename_chain p links) = Inr names'
     \<and> names' (chain_end p links) = Some e"
proof (induction links arbitrary: names p)
  case Nil
  then show ?case by simp
next
  case (Cons link links)
  obtain l tloc t vloc where link: "link = (l, tloc, t, vloc)"
    by (cases link) auto
  have step: "AssignResolver_visit_stmt names (Assign l (Name tloc t) (Name vloc p))
                = Inr [t \<mapsto> e]"
    using Cons.prems by (simp add: AssignResolver_visit_Name_def domI)
  have "(names ++ [t \<mapsto> e]) t = Some e"
    by simp
  from Cons.IH [of "names ++ [t \<mapsto> e]" t, OF this] obtain names' where
    "update_names (names ++ [t \<mapsto> e]) (rename_chain t links) = Inr names'"
    "names' (chain_end t links) = Some e"
    by blast
  then show ?case
    using step by (simp add: link)
qed

text \<open>
  C3. A body that is a chain of renames from a name \<open>x\<close>, ended by the return of the last
  name bound, is resolved to a \<open>Return\<close> (at the location of the return statement) of the
  \<open>Name\<close> node of \<open>x\<close> itself, whatever the length of the chain: no bound name and no
  assignment is left.
\<close>

theorem rename_chain_resolves_to_source:
  "AssignResolver_apply (rename_chain x links @ [Return rl (Name rvloc (chain_end x links))])
     = Inr (Return rl (Name (chain_source rvloc links) x))"
proof (cases links)
  case Nil
  then show ?thesis
    by (simp add: AssignResolver_apply_def AssignResolver_visit_Name_def)
next
  case (Cons link rest)
  obtain l tloc t vloc where link: "link = (l, tloc, t, vloc)"
    by (cases link) auto
  have first: "AssignResolver_visit_stmt Map.empty (Assign l (Name tloc t) (Name vloc x))
                 = Inr [t \<mapsto> Name vloc x]"
    by (simp add: AssignResolver_visit_Name_def)
  have "(Map.empty ++ [t \<mapsto> Name vloc x]) t = Some (Name vloc x)"
    by simp
  from update_names_rename_chain
      [of "Map.empty ++ [t \<mapsto> Name vloc x]" t "Name vloc x" rest, OF this]
  obtain names' where
    rest: "update_names (Map.empty ++ [t \<mapsto> Name vloc x]) (rename_chain t rest) = Inr names'"
    and bound: "names' (chain_end t rest) = Some (Name vloc x)"
    by blast
  have loop: "update_names Map.empty (rename_chain x links) = Inr names'"
    using first rest by (simp add: Cons link)
  have "AssignResolver_visit names' (Name rvloc (chain_end x links)) = Name vloc x"
    using bound by (simp add: Cons link AssignResolver_visit_Name_def domI)
  then show ?thesis
    using loop by (simp add: AssignResolver_apply_def Cons link)
qed

theorem rename_chain_resolves_to_source_witness:
  "AssignResolver_apply
      [Assign (1::nat) (Name 2 ''tmp'') (Name 3 ''x''), Return 4 (Name 5 ''tmp'')]
     = Inr (Return 4 (Name 3 ''x''))
   \<and> AssignResolver_apply
      [Assign (1::nat) (Name 2 ''a'') (Name 3 ''x''), Assign 4 (Name 5 ''b'') (Name 6 ''a''),
       Return 7 (Name 8 ''b'')]
     = Inr (Return 7 (Name 3 ''x''))"
  using rename_chain_resolves_to_source [of "''x''" "[(1::nat, 2, ''tmp'', 3)]" 4 5]
    rename_chain_resolves_to_source
      [of "''x''" "[(1::nat, 2, ''a'', 3), (4, 5, ''b'', 6)]" 7 8]
  by simp

lemma update_names_keeps_binding:
  "list_all is_binding mid \<Longrightarrow> a \<notin> bound_names mid \<Longrightarrow> names a = Some e \<Longrightarrow>
   \<exists>names'. update_names names mid = Inr names' \<and> names' a = Some e"
proof (induction mid arbitrary: names)
  case Nil
  then show ?case by simp
next
  case (Cons node mid)
  from Cons.prems(1) obtain l tloc t v where node: "node = Assign l (Name tloc t) v"
    by (cases node rule: is_binding.cases) auto
  let ?names = "names ++ [t \<mapsto> AssignResolver_visit names v]"
  from Cons.prems(1) have bindings: "list_all is_binding mid"
    by simp
  from Cons.prems(2) have fresh: "a \<notin> bound_names mid" and neq: "t \<noteq> a"
    by (auto simp: node)
  from neq Cons.prems(3) have kept: "?names a = Some e"
    by (simp add: map_add_def)
  from Cons.IH [of ?names, OF bindings fresh kept] obtain names' where
    "update_names ?names mid = Inr names'" and "names' a = Some e"
    by blast
  then show ?case
    by (simp add: node)
qed

lemma children_AssignResolver_visit:
  "children e \<noteq> [] \<Longrightarrow>
   children (AssignResolver_visit names e) = map (AssignResolver_visit names) (children e)"
  by (cases e) simp_all

lemma subterm_at_AssignResolver_visit:
  "subterm_at v p = Some (Name loc i) \<Longrightarrow>
   subterm_at (AssignResolver_visit names v) p = Some (AssignResolver_visit_Name names loc i)"
proof (induction p arbitrary: v)
  case Nil
  then show ?case by simp
next
  case (Cons n p)
  from Cons.prems have n: "n < length (children v)"
    and sub: "subterm_at (children v ! n) p = Some (Name loc i)"
    by (simp_all split: if_splits)
  from n have "children v \<noteq> []"
    by auto
  then have "children (AssignResolver_visit names v)
               = map (AssignResolver_visit names) (children v)"
    by (rule children_AssignResolver_visit)
  with n Cons.IH [OF sub] show ?case
    by simp
qed

lemma reference_site_spliced:
  assumes "names a = Some e'" and "subterm_at v p = Some (Name loc a)"
  shows "subterm_at (AssignResolver_visit names v) p = Some e'"
  using subterm_at_AssignResolver_visit [OF assms(2), of names] assms(1)
  by (simp add: AssignResolver_visit_Name_def domI)

text \<open>
  C7. Let the statements before \<^verbatim>\<open>a = e\<close> leave the dictionary \<open>names\<close>, let \<open>e'\<close> be \<open>e\<close>
  substituted under \<open>names\<close>, and let any assignments that do not bind \<open>a\<close> again follow.
  Then in every later expression, be it the value \<open>v\<close> of a later assignment \<^verbatim>\<open>t = v\<close> or
  the returned expression \<open>r\<close>, every reference site of \<open>a\<close> holds \<open>e'\<close> in the output:
  the expression recorded for \<open>t\<close>, and the value of the resolved \<open>Return\<close>, have \<open>e'\<close> at
  every path at which \<open>v\<close>, or \<open>r\<close>, has a \<open>Name\<close> of \<open>a\<close>, however deep and under whatever
  node. So \<^verbatim>\<open>return (a, ..., a)\<close> is resolved to a tuple holding one copy of \<open>e'\<close> per
  reference, two for \<^verbatim>\<open>return (a, a)\<close>. The surface tree has no node that binds a name
  inside an expression, so the copies are not shared through a binding.
\<close>

theorem bound_name_spliced_at_every_reference:
  assumes "update_names Map.empty pre = Inr names"
    and "list_all is_binding mid"
    and "a \<notin> bound_names mid"
  shows "(\<exists>names2 v'.
            update_names Map.empty
                (pre @ Assign l (Name tloc a) e # mid @ [Assign l2 (Name tloc2 t) v])
              = Inr names2
            \<and> names2 t = Some v'
            \<and> (\<forall>p loc. subterm_at v p = Some (Name loc a) \<longrightarrow>
                   subterm_at v' p = Some (AssignResolver_visit names e)))
         \<and> (\<exists>r'.
            AssignResolver_apply (pre @ Assign l (Name tloc a) e # mid @ [Return rl r])
              = Inr (Return rl r')
            \<and> (\<forall>p loc. subterm_at r p = Some (Name loc a) \<longrightarrow>
                   subterm_at r' p = Some (AssignResolver_visit names e)))
         \<and> AssignResolver_apply
             (pre @ Assign l (Name tloc a) e # mid
                @ [Return rl (TupleExpr tuploc (map (\<lambda>loc. Name loc a) locs))])
           = Inr (Return rl (TupleExpr tuploc
                    (replicate (length locs) (AssignResolver_visit names e))))"
proof -
  let ?e' = "AssignResolver_visit names e"
  let ?names1 = "names ++ [a \<mapsto> ?e']"
  have "?names1 a = Some ?e'"
    by simp
  from update_names_keeps_binding [of mid a ?names1 ?e', OF assms(2,3) this]
  obtain names' where
    mid: "update_names ?names1 mid = Inr names'" and bound: "names' a = Some ?e'"
    by blast
  have loop: "update_names Map.empty (pre @ Assign l (Name tloc a) e # mid) = Inr names'"
    using assms(1) mid by (simp add: update_names_append)
  have site: "subterm_at (AssignResolver_visit names' x) p = Some ?e'"
    if "subterm_at x p = Some (Name loc a)" for x p loc
    using bound that by (rule reference_site_spliced)
  have later: "\<exists>names2 v'.
            update_names Map.empty
                (pre @ Assign l (Name tloc a) e # mid @ [Assign l2 (Name tloc2 t) v])
              = Inr names2
            \<and> names2 t = Some v'
            \<and> (\<forall>p loc. subterm_at v p = Some (Name loc a) \<longrightarrow> subterm_at v' p = Some ?e')"
  proof (intro exI conjI allI impI)
    have "update_names Map.empty
            ((pre @ Assign l (Name tloc a) e # mid) @ [Assign l2 (Name tloc2 t) v])
          = Inr (names' ++ [t \<mapsto> AssignResolver_visit names' v])"
      using loop by (simp only: update_names_append) simp
    then show "update_names Map.empty
                (pre @ Assign l (Name tloc a) e # mid @ [Assign l2 (Name tloc2 t) v])
          = Inr (names' ++ [t \<mapsto> AssignResolver_visit names' v])"
      by simp
    show "(names' ++ [t \<mapsto> AssignResolver_visit names' v]) t
            = Some (AssignResolver_visit names' v)"
      by simp
    show "subterm_at (AssignResolver_visit names' v) p = Some ?e'"
      if "subterm_at v p = Some (Name loc a)" for p loc
      using that by (rule site)
  qed
  have resolved: "AssignResolver_apply (pre @ Assign l (Name tloc a) e # mid @ [Return rl x])
           = Inr (Return rl (AssignResolver_visit names' x))" for x
  proof -
    have "butlast (pre @ Assign l (Name tloc a) e # mid @ [Return rl x])
            = pre @ Assign l (Name tloc a) e # mid"
      by (simp add: butlast_append)
    then show ?thesis
      using loop by (simp add: AssignResolver_apply_def)
  qed
  have returned: "\<exists>r'.
            AssignResolver_apply (pre @ Assign l (Name tloc a) e # mid @ [Return rl r])
              = Inr (Return rl r')
            \<and> (\<forall>p loc. subterm_at r p = Some (Name loc a) \<longrightarrow> subterm_at r' p = Some ?e')"
    using resolved [of r] site by blast
  have "AssignResolver_visit names' (Name loc a) = ?e'" for loc
    using bound by (simp add: AssignResolver_visit_Name_def domI)
  then have "map (AssignResolver_visit names') (map (\<lambda>loc. Name loc a) locs)
             = replicate (length locs) ?e'"
    by (simp add: map_replicate_const comp_def)
  then have "AssignResolver_visit names' (TupleExpr tuploc (map (\<lambda>loc. Name loc a) locs))
             = TupleExpr tuploc (replicate (length locs) ?e')"
    by simp
  with resolved [of "TupleExpr tuploc (map (\<lambda>loc. Name loc a) locs)"]
  have tuple: "AssignResolver_apply
             (pre @ Assign l (Name tloc a) e # mid
                @ [Return rl (TupleExpr tuploc (map (\<lambda>loc. Name loc a) locs))])
           = Inr (Return rl (TupleExpr tuploc (replicate (length locs) ?e')))"
    by simp
  from later returned tuple show ?thesis
    by (intro conjI)
qed

theorem bound_name_spliced_at_every_reference_witness:
  "update_names Map.empty [Assign (1::nat) (Name 2 ''b'') (Name 3 ''x'')]
     = Inr [''b'' \<mapsto> Name 3 ''x'']
   \<and> list_all is_binding
       [Assign (20::nat) (Name 21 ''c'') (Call 22 (Name 23 ''f'') [Name 24 ''a'', Name 25 ''a''])]
   \<and> ''a'' \<notin> bound_names
       [Assign (20::nat) (Name 21 ''c'') (Call 22 (Name 23 ''f'') [Name 24 ''a'', Name 25 ''a''])]
   \<and> subterm_at
       (TupleExpr (10::nat) [Name 11 ''a'', UnaryOp 12 USUB (Subscript 13 (Name 14 ''a'') 0)])
       [1, 0, 0] = Some (Name 14 ''a'')
   \<and> AssignResolver_apply
      [Assign (1::nat) (Name 2 ''b'') (Name 3 ''x''),
       Assign 4 (Name 5 ''a'') (BinOp 6 (BinaryOperator ''plus'') (Name 7 ''b'') (Name 8 ''y'')),
       Assign 20 (Name 21 ''c'') (Call 22 (Name 23 ''f'') [Name 24 ''a'', Name 25 ''a'']),
       Return 9 (TupleExpr 10 [Name 11 ''a'', UnaryOp 12 USUB (Subscript 13 (Name 14 ''a'') 0)])]
     = Inr (Return 9 (TupleExpr 10
         [BinOp 6 (BinaryOperator ''plus'') (Name 3 ''x'') (Name 8 ''y''),
          UnaryOp 12 USUB
            (Subscript 13 (BinOp 6 (BinaryOperator ''plus'') (Name 3 ''x'') (Name 8 ''y'')) 0)]))
   \<and> AssignResolver_apply
      [Assign (1::nat) (Name 2 ''b'') (Name 3 ''x''),
       Assign 4 (Name 5 ''a'') (BinOp 6 (BinaryOperator ''plus'') (Name 7 ''b'') (Name 8 ''y'')),
       Assign 20 (Name 21 ''c'') (Call 22 (Name 23 ''f'') [Name 24 ''a'', Name 25 ''a'']),
       Return 9 (TupleExpr 10 [Name 11 ''a'', Name 12 ''a''])]
     = Inr (Return 9 (TupleExpr 10
         [BinOp 6 (BinaryOperator ''plus'') (Name 3 ''x'') (Name 8 ''y''),
          BinOp 6 (BinaryOperator ''plus'') (Name 3 ''x'') (Name 8 ''y'')]))"
proof -
  let ?e = "BinOp (6::nat) (BinaryOperator ''plus'') (Name 7 ''b'') (Name 8 ''y'')"
  let ?mid = "[Assign (20::nat) (Name 21 ''c'')
                 (Call 22 (Name 23 ''f'') [Name 24 ''a'', Name 25 ''a''])]"
  let ?r = "TupleExpr (10::nat)
              [Name 11 ''a'', UnaryOp 12 USUB (Subscript 13 (Name 14 ''a'') 0)]"
  have pre: "update_names Map.empty [Assign (1::nat) (Name 2 ''b'') (Name 3 ''x'')]
               = Inr [''b'' \<mapsto> Name 3 ''x'']"
    by (simp add: AssignResolver_visit_Name_def)
  have mid: "list_all is_binding ?mid"
    by simp
  have fresh: "''a'' \<notin> bound_names ?mid"
    by simp
  have site: "subterm_at ?r [1, 0, 0] = Some (Name 14 ''a'')"
    by simp
  have nested: "AssignResolver_apply
      ([Assign (1::nat) (Name 2 ''b'') (Name 3 ''x'')] @ Assign 4 (Name 5 ''a'') ?e # ?mid
         @ [Return 9 ?r])
     = Inr (Return 9 (TupleExpr 10
         [BinOp 6 (BinaryOperator ''plus'') (Name 3 ''x'') (Name 8 ''y''),
          UnaryOp 12 USUB
            (Subscript 13 (BinOp 6 (BinaryOperator ''plus'') (Name 3 ''x'') (Name 8 ''y'')) 0)]))"
    by (simp add: AssignResolver_apply_def AssignResolver_visit_Name_def)
  note spliced = bound_name_spliced_at_every_reference
      [OF pre mid fresh, of 4 5 ?e 30 31 "''d''" "Name 32 ''a''" 9 ?r 10 "[11, 12]"]
  from spliced have "AssignResolver_apply
      ([Assign (1::nat) (Name 2 ''b'') (Name 3 ''x'')] @ Assign 4 (Name 5 ''a'') ?e # ?mid
         @ [Return 9 (TupleExpr 10 (map (\<lambda>loc. Name loc ''a'') [11, 12]))])
     = Inr (Return 9 (TupleExpr 10
         (replicate (length [11::nat, 12])
            (AssignResolver_visit [''b'' \<mapsto> Name 3 ''x''] ?e))))"
    by (rule conjunct2 [THEN conjunct2])
  then have tuple: "AssignResolver_apply
      ([Assign (1::nat) (Name 2 ''b'') (Name 3 ''x'')] @ Assign 4 (Name 5 ''a'') ?e # ?mid
         @ [Return 9 (TupleExpr 10 [Name 11 ''a'', Name 12 ''a''])])
     = Inr (Return 9 (TupleExpr 10
         [BinOp 6 (BinaryOperator ''plus'') (Name 3 ''x'') (Name 8 ''y''),
          BinOp 6 (BinaryOperator ''plus'') (Name 3 ''x'') (Name 8 ''y'')]))"
    by (simp add: AssignResolver_visit_Name_def)
  from pre mid fresh site nested tuple show ?thesis
    by simp
qed

section \<open>Properties of the lowering of an operator\<close>








end
